theory Spec2Isabelle
  imports Main "HOL-Library.Word"
begin

section \<open>Data shared by the three API clients\<close>

text \<open>
  The clients of \<^verbatim>\<open>api/health\<close>, \<^verbatim>\<open>api/info\<close> and \<^verbatim>\<open>vms/avm\<close> build a
  parameter struct, hand it with a fresh reply struct to the \<^verbatim>\<open>SendRequest\<close> method of an
  \<^verbatim>\<open>rpc.EndpointRequester\<close>, and read fields of the reply. The world the requester talks to
  (network, server, clock) is a state of type \<open>'w\<close> passed through every call.
\<close>

type_synonym byte = "8 word"

text \<open>\<^verbatim>\<open>time.Duration\<close> counts nanoseconds. No arithmetic is done on it here.\<close>

type_synonym Duration = int

text \<open>
  \<^verbatim>\<open>ids.ID\<close>, \<^verbatim>\<open>ids.Empty\<close>, \<^verbatim>\<open>choices.Status\<close> and the \<^verbatim>\<open>formatting\<close> encodings are
  declared in packages outside the three client files. An identifier is taken as its sequence
  of bytes and \<^verbatim>\<open>ids.Empty\<close> as the zero value of the type (32 zero bytes), which is also what
  the field \<^verbatim>\<open>TxID\<close> of a fresh \<^verbatim>\<open>api.JSONTxID{}\<close> holds. Of the statuses only
  \<^verbatim>\<open>choices.Unknown\<close> is named by the clients, of the encodings only
  \<^verbatim>\<open>formatting.HexEncoding\<close>; \<open>UnsetEncoding\<close> is the zero value of an encoding field.
\<close>

datatype ID = ID "byte list"

definition Empty :: ID where
  "Empty = ID (replicate 32 0)"

datatype Status = Unknown | Processing | Rejected | Accepted

datatype Encoding = UnsetEncoding | HexEncoding

text \<open>
  Struct types that the clients only pass through, field by field unread: the caller's
  credentials (taken as a user name and a password), the holders and minter sets of a new
  asset, the peers of a node.
\<close>

datatype UserPass = UserPass string string

typedecl Holder
typedecl Owners
typedecl PeerID

text \<open>
  The reply structs \<^verbatim>\<open>GetAssetDescriptionReply\<close>, \<^verbatim>\<open>GetBalanceReply\<close> and
  \<^verbatim>\<open>GetAllBalancesReply\<close> are returned whole and none of their fields is read here: their
  content is kept as the list of fields the decoder set, empty in a fresh struct.
\<close>

type_synonym fields = "(string \<times> string) list"

datatype Index = Index string string
  \<comment> \<open>\<^verbatim>\<open>Address\<close>, \<^verbatim>\<open>UTXO\<close>\<close>

datatype JSONFromAddrs = JSONFromAddrs "string list"
  \<comment> \<open>\<^verbatim>\<open>From\<close>\<close>

datatype JSONChangeAddr = JSONChangeAddr string
  \<comment> \<open>\<^verbatim>\<open>ChangeAddr\<close>\<close>

datatype JSONSpendHeader = JSONSpendHeader UserPass JSONFromAddrs JSONChangeAddr

datatype SendOutput = SendOutput "64 word" string string
  \<comment> \<open>\<^verbatim>\<open>Amount\<close>, \<^verbatim>\<open>AssetID\<close>, \<^verbatim>\<open>To\<close>\<close>

datatype ExportAVAXArgs = ExportAVAXArgs JSONSpendHeader "64 word" string
  \<comment> \<open>spend header, \<^verbatim>\<open>Amount\<close>, \<^verbatim>\<open>To\<close>\<close>

text \<open>
  \<^verbatim>\<open>SendRequest\<close> takes its parameters and its reply slot as \<^verbatim>\<open>interface{}\<close>. A
  \<open>payload\<close> is a value of one of the struct types that the clients put there, one constructor
  per struct type, the fields in the order of the comments.
\<close>

datatype payload =
    EmptyStruct
  | GetLivenessReply bool  \<comment> \<open>\<^verbatim>\<open>Healthy\<close>\<close>
  | GetNodeIDReply string  \<comment> \<open>\<^verbatim>\<open>NodeID\<close>\<close>
  | GetNetworkIDReply "32 word"  \<comment> \<open>\<^verbatim>\<open>NetworkID\<close>\<close>
  | GetNetworkNameReply string  \<comment> \<open>\<^verbatim>\<open>NetworkName\<close>\<close>
  | GetBlockchainIDReply string  \<comment> \<open>\<^verbatim>\<open>BlockchainID\<close>\<close>
  | PeersReply "PeerID list"  \<comment> \<open>\<^verbatim>\<open>Peers\<close>\<close>
  | IsBootstrappedArgs string  \<comment> \<open>\<^verbatim>\<open>Chain\<close>\<close>
  | IsBootstrappedResponse bool  \<comment> \<open>\<^verbatim>\<open>IsBootstrapped\<close>\<close>
  | JSONTxID ID  \<comment> \<open>\<^verbatim>\<open>TxID\<close>\<close>
  | FormattedTx string Encoding  \<comment> \<open>\<^verbatim>\<open>Tx\<close>, \<^verbatim>\<open>Encoding\<close>\<close>
  | GetTxStatusReply Status  \<comment> \<open>\<^verbatim>\<open>Status\<close>\<close>
  | GetTxArgs ID Encoding  \<comment> \<open>\<^verbatim>\<open>TxID\<close>, \<^verbatim>\<open>Encoding\<close>\<close>
  | GetUTXOsArgs "string list" "32 word" Index Encoding
      \<comment> \<open>\<^verbatim>\<open>Addresses\<close>, \<^verbatim>\<open>Limit\<close>, \<^verbatim>\<open>StartIndex\<close>, \<^verbatim>\<open>Encoding\<close>\<close>
  | GetUTXOsReply "string list" Index  \<comment> \<open>\<^verbatim>\<open>UTXOs\<close>, \<^verbatim>\<open>EndIndex\<close>\<close>
  | GetAssetDescriptionArgs string  \<comment> \<open>\<^verbatim>\<open>AssetID\<close>\<close>
  | GetAssetDescriptionReply fields
  | GetBalanceArgs string string  \<comment> \<open>\<^verbatim>\<open>Address\<close>, \<^verbatim>\<open>AssetID\<close>\<close>
  | GetBalanceReply fields
  | JSONAddress string  \<comment> \<open>\<^verbatim>\<open>Address\<close>\<close>
  | GetAllBalancesReply fields
  | CreateAssetArgs JSONSpendHeader string string byte "Holder list" "Owners list"
      \<comment> \<open>spend header, \<^verbatim>\<open>Name\<close>, \<^verbatim>\<open>Symbol\<close>, \<^verbatim>\<open>Denomination\<close>,
         \<^verbatim>\<open>InitialHolders\<close>, \<^verbatim>\<open>MinterSets\<close>\<close>
  | FormattedAssetID ID  \<comment> \<open>\<^verbatim>\<open>AssetID\<close>\<close>
  | CreateNFTAssetArgs JSONSpendHeader string string "Owners list"
      \<comment> \<open>spend header, \<^verbatim>\<open>Name\<close>, \<^verbatim>\<open>Symbol\<close>, \<^verbatim>\<open>MinterSets\<close>\<close>
  | UserPassArgs UserPass  \<comment> \<open>the caller's \<^verbatim>\<open>&user\<close>\<close>
  | JSONAddresses "string list"  \<comment> \<open>\<^verbatim>\<open>Addresses\<close>\<close>
  | ExportKeyArgs UserPass string  \<comment> \<open>\<^verbatim>\<open>UserPass\<close>, \<^verbatim>\<open>Address\<close>\<close>
  | ExportKeyReply string  \<comment> \<open>\<^verbatim>\<open>PrivateKey\<close>\<close>
  | ImportKeyArgs UserPass string  \<comment> \<open>\<^verbatim>\<open>UserPass\<close>, \<^verbatim>\<open>PrivateKey\<close>\<close>
  | SendArgs JSONSpendHeader SendOutput
  | SendMultipleArgs JSONSpendHeader "SendOutput list"  \<comment> \<open>spend header, \<^verbatim>\<open>Outputs\<close>\<close>
  | MintArgs JSONSpendHeader "64 word" string string
      \<comment> \<open>spend header, \<^verbatim>\<open>Amount\<close>, \<^verbatim>\<open>AssetID\<close>, \<^verbatim>\<open>To\<close>\<close>
  | SendNFTArgs JSONSpendHeader string "32 word" string
      \<comment> \<open>spend header, \<^verbatim>\<open>AssetID\<close>, \<^verbatim>\<open>GroupID\<close>, \<^verbatim>\<open>To\<close>\<close>
  | MintNFTArgs JSONSpendHeader string string Encoding string
      \<comment> \<open>spend header, \<^verbatim>\<open>AssetID\<close>, \<^verbatim>\<open>Payload\<close>, \<^verbatim>\<open>Encoding\<close>, \<^verbatim>\<open>To\<close>\<close>
  | ImportArgs UserPass string string  \<comment> \<open>\<^verbatim>\<open>UserPass\<close>, \<^verbatim>\<open>To\<close>, \<^verbatim>\<open>SourceChain\<close>\<close>
  | ExportAVAXArgsP ExportAVAXArgs
  | ExportArgs ExportAVAXArgs string  \<comment> \<open>\<^verbatim>\<open>ExportAVAXArgs\<close>, \<^verbatim>\<open>AssetID\<close>\<close>

text \<open>
  The errors of the specification's taxonomy, and an error given by
  \<^verbatim>\<open>formatting.Hex.FromString\<close>.
\<close>

datatype error =
    EncodingError
  | TimeoutError
  | TransportError string
  | RemoteError int string
  | DecodingError
  | HexFormatError

text \<open>
  \<^verbatim>\<open>rpc.EndpointRequester\<close> is an interface with the one method
  \<^verbatim>\<open>SendRequest(method, params, reply) error\<close>. A requester is that method: from the method
  name, the parameters, the reply slot as the caller filled it and the world, it gives the
  slot as the call leaves it, the error (\<open>None\<close> for \<^verbatim>\<open>nil\<close>) and the new world.
\<close>

type_synonym 'w EndpointRequester =
  "string \<Rightarrow> payload \<Rightarrow> payload \<Rightarrow> 'w \<Rightarrow> (payload \<times> error option) \<times> 'w"

text \<open>The three packages declare the same \<^verbatim>\<open>Client\<close> struct, with the one field.\<close>

record 'w Client =
  requester :: "'w EndpointRequester"

section \<open>The health client\<close>

text \<open>Reading \<^verbatim>\<open>res.Healthy\<close>. In Go the slot keeps the type the caller gave it.\<close>

definition get_Healthy :: "payload \<Rightarrow> bool" where
  "get_Healthy res = (case res of GetLivenessReply h \<Rightarrow> h | _ \<Rightarrow> False)"

definition GetLiveness :: "'w Client \<Rightarrow> 'w \<Rightarrow> (payload \<times> error option) \<times> 'w" where
  "GetLiveness c w = requester c ''getLiveness'' EmptyStruct (GetLivenessReply False) w"

text \<open>
  The loop \<^verbatim>\<open>for i := 0; i < checks; i++\<close> of \<^verbatim>\<open>AwaitHealthy\<close>, from the value \<open>i\<close> of
  its counter. \<^verbatim>\<open>time.Sleep\<close> is the parameter \<open>sleep\<close>. The counter stays below
  \<open>checks\<close>, so the increment never overflows.
\<close>

function AwaitHealthy_loop ::
  "(Duration \<Rightarrow> 'w \<Rightarrow> 'w) \<Rightarrow> 'w Client \<Rightarrow> int \<Rightarrow> Duration \<Rightarrow> int \<Rightarrow> 'w
     \<Rightarrow> (bool \<times> error option) \<times> 'w" where
  "AwaitHealthy_loop sleep c checks interval i w =
     (if i < checks then
        (case GetLiveness c (sleep interval w) of
           ((res, err), w') \<Rightarrow>
             if err \<noteq> None then AwaitHealthy_loop sleep c checks interval (i + 1) w'
             else if get_Healthy res then ((True, None), w')
             else AwaitHealthy_loop sleep c checks interval (i + 1) w')
      else ((False, None), w))"
  by pat_completeness auto
termination
  by (relation "measure (\<lambda>(sleep, c, checks, interval, i, w). nat (checks - i))") auto

declare AwaitHealthy_loop.simps [simp del]

definition AwaitHealthy ::
  "(Duration \<Rightarrow> 'w \<Rightarrow> 'w) \<Rightarrow> 'w Client \<Rightarrow> int \<Rightarrow> Duration \<Rightarrow> 'w
     \<Rightarrow> (bool \<times> error option) \<times> 'w" where
  "AwaitHealthy sleep c checks interval w = AwaitHealthy_loop sleep c checks interval 0 w"

section \<open>The requester\<close>

text \<open>
  Modelled from the spec: the implementation of \<^verbatim>\<open>rpc.EndpointRequester\<close> (package
  \<^verbatim>\<open>utils/rpc\<close>, with \<^verbatim>\<open>NewEndpointRequester\<close> and \<^verbatim>\<open>SendRequest\<close>) is not among the
  client files. What follows is the behaviour of section 4.1 of the specification, steps 1 to
  8, over the two collaborators it names: a serialization codec and a transport with a
  per-call timeout. The correlation identifier of the envelopes plays no part in those steps
  and is left out.
\<close>

datatype response_envelope =
    ResultPayload string
  | ErrorPayload int string  \<comment> \<open>code, message\<close>

datatype delivery =
    TimedOut
  | TransportFailed string  \<comment> \<open>the underlying cause\<close>
  | Received response_envelope

record 'w network =
  serialize :: "payload \<Rightarrow> string option"
  transmit :: "string \<Rightarrow> Duration \<Rightarrow> string \<Rightarrow> string \<Rightarrow> 'w \<Rightarrow> delivery \<times> 'w"
    \<comment> \<open>address and path, timeout, qualified method name, serialized parameters\<close>
  decode_into :: "string \<Rightarrow> payload \<Rightarrow> payload option"
    \<comment> \<open>the result payload decoded into a slot of the given shape\<close>

record requester_config =
  base_address :: string
  uri_path :: string
  namespace :: string
  request_timeout :: Duration

definition SendRequest :: "'w network \<Rightarrow> requester_config \<Rightarrow> 'w EndpointRequester" where
  "SendRequest net cfg method params resultOut w =
     (case serialize net params of
        None \<Rightarrow> ((resultOut, Some EncodingError), w)
      | Some body \<Rightarrow>
          (case transmit net (base_address cfg @ uri_path cfg) (request_timeout cfg)
                  (namespace cfg @ ''.'' @ method) body w of
             (TimedOut, w') \<Rightarrow> ((resultOut, Some TimeoutError), w')
           | (TransportFailed cause, w') \<Rightarrow> ((resultOut, Some (TransportError cause)), w')
           | (Received (ErrorPayload code message), w') \<Rightarrow>
               ((resultOut, Some (RemoteError code message)), w')
           | (Received (ResultPayload result), w') \<Rightarrow>
               (case decode_into net result resultOut of
                  None \<Rightarrow> ((resultOut, Some DecodingError), w')
                | Some decoded \<Rightarrow> ((decoded, None), w'))))"

text \<open>
  The slot holds the decoding of the result payload that the server sent for this request.
\<close>

definition populated ::
  "'w network \<Rightarrow> requester_config \<Rightarrow> string \<Rightarrow> payload \<Rightarrow> payload \<Rightarrow> 'w \<Rightarrow> payload \<Rightarrow> bool" where
  "populated net cfg method params resultOut w out =
     (case serialize net params of
        None \<Rightarrow> False
      | Some body \<Rightarrow>
          (case fst (transmit net (base_address cfg @ uri_path cfg) (request_timeout cfg)
                       (namespace cfg @ ''.'' @ method) body w) of
             Received (ResultPayload result) \<Rightarrow> decode_into net result resultOut = Some out
           | _ \<Rightarrow> False))"

definition NewEndpointRequester ::
  "'w network \<Rightarrow> string \<Rightarrow> string \<Rightarrow> string \<Rightarrow> Duration \<Rightarrow> 'w EndpointRequester" where
  "NewEndpointRequester net uri path ns requestTimeout =
     SendRequest net \<lparr>base_address = uri, uri_path = path, namespace = ns,
       request_timeout = requestTimeout\<rparr>"

text \<open>
  \<^verbatim>\<open>NewClient\<close> of the health package. The codec and the transport that the requester is
  built on are the extra first argument.
\<close>

definition health_NewClient :: "'w network \<Rightarrow> string \<Rightarrow> Duration \<Rightarrow> 'w Client" where
  "health_NewClient net uri requestTimeout =
     \<lparr>requester = NewEndpointRequester net uri ''/ext/health'' ''health'' requestTimeout\<rparr>"

section \<open>The info client\<close>

definition info_NewClient :: "'w network \<Rightarrow> string \<Rightarrow> Duration \<Rightarrow> 'w Client" where
  "info_NewClient net uri requestTimeout =
     \<lparr>requester = NewEndpointRequester net uri ''/ext/info'' ''info'' requestTimeout\<rparr>"

definition get_NodeID :: "payload \<Rightarrow> string" where
  "get_NodeID res = (case res of GetNodeIDReply x \<Rightarrow> x | _ \<Rightarrow> [])"

definition get_NetworkID :: "payload \<Rightarrow> 32 word" where
  "get_NetworkID res = (case res of GetNetworkIDReply x \<Rightarrow> x | _ \<Rightarrow> 0)"

definition get_NetworkName :: "payload \<Rightarrow> string" where
  "get_NetworkName res = (case res of GetNetworkNameReply x \<Rightarrow> x | _ \<Rightarrow> [])"

definition get_BlockchainID :: "payload \<Rightarrow> string" where
  "get_BlockchainID res = (case res of GetBlockchainIDReply x \<Rightarrow> x | _ \<Rightarrow> [])"

definition get_Peers :: "payload \<Rightarrow> PeerID list" where
  "get_Peers res = (case res of PeersReply x \<Rightarrow> x | _ \<Rightarrow> [])"

definition get_IsBootstrapped :: "payload \<Rightarrow> bool" where
  "get_IsBootstrapped res = (case res of IsBootstrappedResponse x \<Rightarrow> x | _ \<Rightarrow> False)"

definition GetNodeID :: "'w Client \<Rightarrow> 'w \<Rightarrow> (string \<times> error option) \<times> 'w" where
  "GetNodeID c w =
     (case requester c ''getNodeID'' EmptyStruct (GetNodeIDReply []) w of
        ((res, err), w') \<Rightarrow> ((get_NodeID res, err), w'))"

text \<open>\<^verbatim>\<open>uint32(res.NetworkID)\<close> converts a \<^verbatim>\<open>cjson.Uint32\<close>, itself 32 bits wide.\<close>

definition GetNetworkID :: "'w Client \<Rightarrow> 'w \<Rightarrow> (32 word \<times> error option) \<times> 'w" where
  "GetNetworkID c w =
     (case requester c ''getNetworkID'' EmptyStruct (GetNetworkIDReply 0) w of
        ((res, err), w') \<Rightarrow> ((get_NetworkID res, err), w'))"

definition GetNetworkName :: "'w Client \<Rightarrow> 'w \<Rightarrow> (string \<times> error option) \<times> 'w" where
  "GetNetworkName c w =
     (case requester c ''getNetworkName'' EmptyStruct (GetNetworkNameReply []) w of
        ((res, err), w') \<Rightarrow> ((get_NetworkName res, err), w'))"

definition GetBlockchainID :: "'w Client \<Rightarrow> 'w \<Rightarrow> (string \<times> error option) \<times> 'w" where
  "GetBlockchainID c w =
     (case requester c ''getBlockchainID'' EmptyStruct (GetBlockchainIDReply []) w of
        ((res, err), w') \<Rightarrow> ((get_BlockchainID res, err), w'))"

definition Peers :: "'w Client \<Rightarrow> 'w \<Rightarrow> (PeerID list \<times> error option) \<times> 'w" where
  "Peers c w =
     (case requester c ''peers'' EmptyStruct (PeersReply []) w of
        ((res, err), w') \<Rightarrow> ((get_Peers res, err), w'))"

definition IsBootstrapped :: "'w Client \<Rightarrow> string \<Rightarrow> 'w \<Rightarrow> (bool \<times> error option) \<times> 'w" where
  "IsBootstrapped c chain w =
     (case requester c ''isBootstrapped'' (IsBootstrappedArgs chain)
             (IsBootstrappedResponse False) w of
        ((res, err), w') \<Rightarrow> ((get_IsBootstrapped res, err), w'))"

section \<open>The formatter\<close>

text \<open>
  \<^verbatim>\<open>formatting.Hex\<close>, with its methods \<^verbatim>\<open>String\<close> and \<^verbatim>\<open>FromString\<close>, is declared outside
  the three client files, and the specification gives no format for it. The two methods are
  a parameter of the client methods that call them. \<^verbatim>\<open>String\<close> gives the text of the
  bytes of the formatter; \<^verbatim>\<open>FromString\<close>, from the bytes that the formatter holds and a
  string, gives the bytes that the formatter holds afterwards and the error (\<open>None\<close> for
  \<^verbatim>\<open>nil\<close>).
\<close>

record Hex =
  Hex_String :: "byte list \<Rightarrow> string"
  Hex_FromString :: "byte list \<Rightarrow> string \<Rightarrow> byte list \<times> error option"

section \<open>The AVM client\<close>

text \<open>\<^verbatim>\<open>fmt.Sprintf("/ext/bc/%s", chain)\<close> appends the chain to the prefix.\<close>

definition avm_NewClient :: "'w network \<Rightarrow> string \<Rightarrow> string \<Rightarrow> Duration \<Rightarrow> 'w Client" where
  "avm_NewClient net uri chain requestTimeout =
     \<lparr>requester = NewEndpointRequester net uri (''/ext/bc/'' @ chain) ''avm'' requestTimeout\<rparr>"

text \<open>
  Reading a field of the reply. In Go the slot keeps the struct type the caller gave it;
  the second case of each reader stands for no run of the program.
\<close>

definition get_TxID :: "payload \<Rightarrow> ID" where
  "get_TxID res = (case res of JSONTxID x \<Rightarrow> x | _ \<Rightarrow> Empty)"

definition get_Status :: "payload \<Rightarrow> Status" where
  "get_Status res = (case res of GetTxStatusReply x \<Rightarrow> x | _ \<Rightarrow> Unknown)"

definition get_Tx :: "payload \<Rightarrow> string" where
  "get_Tx res = (case res of FormattedTx x enc \<Rightarrow> x | _ \<Rightarrow> [])"

definition get_UTXOs :: "payload \<Rightarrow> string list" where
  "get_UTXOs res = (case res of GetUTXOsReply x idx \<Rightarrow> x | _ \<Rightarrow> [])"

definition get_EndIndex :: "payload \<Rightarrow> Index" where
  "get_EndIndex res = (case res of GetUTXOsReply utxos x \<Rightarrow> x | _ \<Rightarrow> Index [] [])"

definition get_AssetID :: "payload \<Rightarrow> ID" where
  "get_AssetID res = (case res of FormattedAssetID x \<Rightarrow> x | _ \<Rightarrow> Empty)"

definition get_Address :: "payload \<Rightarrow> string" where
  "get_Address res = (case res of JSONAddress x \<Rightarrow> x | _ \<Rightarrow> [])"

definition get_Addresses :: "payload \<Rightarrow> string list" where
  "get_Addresses res = (case res of JSONAddresses x \<Rightarrow> x | _ \<Rightarrow> [])"

definition get_PrivateKey :: "payload \<Rightarrow> string" where
  "get_PrivateKey res = (case res of ExportKeyReply x \<Rightarrow> x | _ \<Rightarrow> [])"

text \<open>
  A \<^verbatim>\<open>nil\<close> slice is the empty list, and a fresh \<^verbatim>\<open>formatting.Hex{}\<close> holds no bytes.
\<close>

definition IssueTx ::
  "Hex \<Rightarrow> 'w Client \<Rightarrow> byte list \<Rightarrow> 'w \<Rightarrow> (ID \<times> error option) \<times> 'w" where
  "IssueTx hex c txBytes w =
     (case requester c ''issueTx'' (FormattedTx (Hex_String hex txBytes) HexEncoding)
             (JSONTxID Empty) w of
        ((res, err), w') \<Rightarrow>
          if err \<noteq> None then ((Empty, err), w') else ((get_TxID res, None), w'))"

definition GetTxStatus :: "'w Client \<Rightarrow> ID \<Rightarrow> 'w \<Rightarrow> (Status \<times> error option) \<times> 'w" where
  "GetTxStatus c txID w =
     (case requester c ''getTxStatus'' (JSONTxID txID) (GetTxStatusReply Unknown) w of
        ((res, err), w') \<Rightarrow>
          if err \<noteq> None then ((Unknown, err), w') else ((get_Status res, None), w'))"

definition GetTx ::
  "Hex \<Rightarrow> 'w Client \<Rightarrow> ID \<Rightarrow> 'w \<Rightarrow> (byte list \<times> error option) \<times> 'w" where
  "GetTx hex c txID w =
     (case requester c ''getTx'' (GetTxArgs txID HexEncoding) (FormattedTx [] UnsetEncoding) w of
        ((res, err), w') \<Rightarrow>
          if err \<noteq> None then (([], err), w')
          else (case Hex_FromString hex [] (get_Tx res) of
                  (bytes, Some err) \<Rightarrow> (([], Some err), w')
                | (bytes, None) \<Rightarrow> ((bytes, None), w')))"

text \<open>
  The loop of \<^verbatim>\<open>GetUTXOs\<close> over \<^verbatim>\<open>res.UTXOs\<close>, from the bytes that its one formatter
  holds: every string is read in turn, the bytes then held are the next element of the
  result, and the first failure ends the loop with its error.
\<close>

fun decode_utxos :: "Hex \<Rightarrow> byte list \<Rightarrow> string list \<Rightarrow> error + byte list list" where
  "decode_utxos hex held [] = Inr []"
| "decode_utxos hex held (utxo # rest) =
     (case Hex_FromString hex held utxo of
        (bytes, Some err) \<Rightarrow> Inl err
      | (bytes, None) \<Rightarrow>
          (case decode_utxos hex bytes rest of
             Inl err \<Rightarrow> Inl err
           | Inr utxos \<Rightarrow> Inr (bytes # utxos)))"

definition GetUTXOs ::
  "Hex \<Rightarrow> 'w Client \<Rightarrow> string list \<Rightarrow> 32 word \<Rightarrow> string \<Rightarrow> string \<Rightarrow> 'w
     \<Rightarrow> (byte list list \<times> Index \<times> error option) \<times> 'w" where
  "GetUTXOs hex c addrs limit startAddress startUTXOID w =
     (case requester c ''getUTXOs''
             (GetUTXOsArgs addrs limit (Index startAddress startUTXOID) HexEncoding)
             (GetUTXOsReply [] (Index [] [])) w of
        ((res, err), w') \<Rightarrow>
          if err \<noteq> None then (([], Index [] [], err), w')
          else (case decode_utxos hex [] (get_UTXOs res) of
                  Inl err \<Rightarrow> (([], Index [] [], Some err), w')
                | Inr utxos \<Rightarrow> ((utxos, get_EndIndex res, None), w')))"

definition GetAssetDescription ::
  "'w Client \<Rightarrow> string \<Rightarrow> 'w \<Rightarrow> (payload \<times> error option) \<times> 'w" where
  "GetAssetDescription c assetID w =
     requester c ''getAssetDescription'' (GetAssetDescriptionArgs assetID)
       (GetAssetDescriptionReply []) w"

definition GetBalance ::
  "'w Client \<Rightarrow> string \<Rightarrow> string \<Rightarrow> 'w \<Rightarrow> (payload \<times> error option) \<times> 'w" where
  "GetBalance c addr assetID w =
     requester c ''getBalance'' (GetBalanceArgs addr assetID) (GetBalanceReply []) w"

definition GetAllBalances ::
  "'w Client \<Rightarrow> string \<Rightarrow> string \<Rightarrow> 'w \<Rightarrow> (payload \<times> error option) \<times> 'w" where
  "GetAllBalances c addr assetID w =
     requester c ''getAllBalances'' (JSONAddress addr) (GetAllBalancesReply []) w"

text \<open>
  \<^verbatim>\<open>CreateFixedCapAsset\<close> leaves \<^verbatim>\<open>MinterSets\<close> unset and \<^verbatim>\<open>CreateVariableCapAsset\<close>
  leaves \<^verbatim>\<open>InitialHolders\<close> unset.
\<close>

definition CreateFixedCapAsset ::
  "'w Client \<Rightarrow> UserPass \<Rightarrow> string \<Rightarrow> string \<Rightarrow> byte \<Rightarrow> Holder list \<Rightarrow> string list \<Rightarrow> string \<Rightarrow> 'w \<Rightarrow> (ID \<times> error option) \<times> 'w" where
  "CreateFixedCapAsset c user name symbol denomination holders from changeAddr w =
     (case requester c ''createFixedCapAsset''
             (CreateAssetArgs (JSONSpendHeader user (JSONFromAddrs from) (JSONChangeAddr changeAddr))
                name symbol denomination holders [])
             (FormattedAssetID Empty) w of
        ((res, err), w') \<Rightarrow>
          if err \<noteq> None then ((Empty, err), w') else ((get_AssetID res, None), w'))"

definition CreateVariableCapAsset ::
  "'w Client \<Rightarrow> UserPass \<Rightarrow> string \<Rightarrow> string \<Rightarrow> byte \<Rightarrow> Owners list \<Rightarrow> string list \<Rightarrow> string \<Rightarrow> 'w \<Rightarrow> (ID \<times> error option) \<times> 'w" where
  "CreateVariableCapAsset c user name symbol denomination minters from changeAddr w =
     (case requester c ''createVariableCapAsset''
             (CreateAssetArgs (JSONSpendHeader user (JSONFromAddrs from) (JSONChangeAddr changeAddr))
                name symbol denomination [] minters)
             (FormattedAssetID Empty) w of
        ((res, err), w') \<Rightarrow>
          if err \<noteq> None then ((Empty, err), w') else ((get_AssetID res, None), w'))"

definition CreateNFTAsset ::
  "'w Client \<Rightarrow> UserPass \<Rightarrow> string \<Rightarrow> string \<Rightarrow> Owners list \<Rightarrow> string list \<Rightarrow> string \<Rightarrow> 'w \<Rightarrow> (ID \<times> error option) \<times> 'w" where
  "CreateNFTAsset c user name symbol minters from changeAddr w =
     (case requester c ''createNFTAsset''
             (CreateNFTAssetArgs (JSONSpendHeader user (JSONFromAddrs from) (JSONChangeAddr changeAddr))
                name symbol minters)
             (FormattedAssetID Empty) w of
        ((res, err), w') \<Rightarrow>
          if err \<noteq> None then ((Empty, err), w') else ((get_AssetID res, None), w'))"

definition CreateAddress ::
  "'w Client \<Rightarrow> UserPass \<Rightarrow> 'w \<Rightarrow> (string \<times> error option) \<times> 'w" where
  "CreateAddress c user w =
     (case requester c ''createAddress'' (UserPassArgs user) (JSONAddress []) w of
        ((res, err), w') \<Rightarrow>
          if err \<noteq> None then (([], err), w') else ((get_Address res, None), w'))"

definition ListAddresses ::
  "'w Client \<Rightarrow> UserPass \<Rightarrow> 'w \<Rightarrow> (string list \<times> error option) \<times> 'w" where
  "ListAddresses c user w =
     (case requester c ''listAddresses'' (UserPassArgs user) (JSONAddresses []) w of
        ((res, err), w') \<Rightarrow>
          if err \<noteq> None then (([], err), w') else ((get_Addresses res, None), w'))"

definition ExportKey ::
  "'w Client \<Rightarrow> UserPass \<Rightarrow> string \<Rightarrow> 'w \<Rightarrow> (string \<times> error option) \<times> 'w" where
  "ExportKey c user addr w =
     (case requester c ''exportKey'' (ExportKeyArgs user addr) (ExportKeyReply []) w of
        ((res, err), w') \<Rightarrow>
          if err \<noteq> None then (([], err), w') else ((get_PrivateKey res, None), w'))"

definition ImportKey ::
  "'w Client \<Rightarrow> UserPass \<Rightarrow> string \<Rightarrow> 'w \<Rightarrow> (string \<times> error option) \<times> 'w" where
  "ImportKey c user privateKey w =
     (case requester c ''importKey'' (ImportKeyArgs user privateKey) (JSONAddress []) w of
        ((res, err), w') \<Rightarrow>
          if err \<noteq> None then (([], err), w') else ((get_Address res, None), w'))"

definition Send ::
  "'w Client \<Rightarrow> UserPass \<Rightarrow> 64 word \<Rightarrow> string \<Rightarrow> string \<Rightarrow> string list \<Rightarrow> string \<Rightarrow> 'w \<Rightarrow> (ID \<times> error option) \<times> 'w" where
  "Send c user amount assetID to from changeAddr w =
     (case requester c ''send''
             (SendArgs (JSONSpendHeader user (JSONFromAddrs from) (JSONChangeAddr changeAddr))
                (SendOutput amount assetID to))
             (JSONTxID Empty) w of
        ((res, err), w') \<Rightarrow>
          if err \<noteq> None then ((Empty, err), w') else ((get_TxID res, None), w'))"

definition SendMultiple ::
  "'w Client \<Rightarrow> UserPass \<Rightarrow> SendOutput list \<Rightarrow> string list \<Rightarrow> string \<Rightarrow> 'w \<Rightarrow> (ID \<times> error option) \<times> 'w" where
  "SendMultiple c user outputs from changeAddr w =
     (case requester c ''send''
             (SendMultipleArgs (JSONSpendHeader user (JSONFromAddrs from) (JSONChangeAddr changeAddr))
                outputs)
             (JSONTxID Empty) w of
        ((res, err), w') \<Rightarrow>
          if err \<noteq> None then ((Empty, err), w') else ((get_TxID res, None), w'))"

definition Mint ::
  "'w Client \<Rightarrow> UserPass \<Rightarrow> 64 word \<Rightarrow> string \<Rightarrow> string \<Rightarrow> string list \<Rightarrow> string \<Rightarrow> 'w \<Rightarrow> (ID \<times> error option) \<times> 'w" where
  "Mint c user amount assetID to from changeAddr w =
     (case requester c ''mint''
             (MintArgs (JSONSpendHeader user (JSONFromAddrs from) (JSONChangeAddr changeAddr))
                amount assetID to)
             (JSONTxID Empty) w of
        ((res, err), w') \<Rightarrow>
          if err \<noteq> None then ((Empty, err), w') else ((get_TxID res, None), w'))"

definition SendNFT ::
  "'w Client \<Rightarrow> UserPass \<Rightarrow> string \<Rightarrow> 32 word \<Rightarrow> string \<Rightarrow> string list \<Rightarrow> string \<Rightarrow> 'w \<Rightarrow> (ID \<times> error option) \<times> 'w" where
  "SendNFT c user assetID groupID to from changeAddr w =
     (case requester c ''sendNFT''
             (SendNFTArgs (JSONSpendHeader user (JSONFromAddrs from) (JSONChangeAddr changeAddr))
                assetID groupID to)
             (JSONTxID Empty) w of
        ((res, err), w') \<Rightarrow>
          if err \<noteq> None then ((Empty, err), w') else ((get_TxID res, None), w'))"

definition MintNFT ::
  "Hex \<Rightarrow> 'w Client \<Rightarrow> UserPass \<Rightarrow> string \<Rightarrow> byte list \<Rightarrow> string \<Rightarrow> string list \<Rightarrow> string \<Rightarrow> 'w \<Rightarrow> (ID \<times> error option) \<times> 'w" where
  "MintNFT hex c user assetID payload to from changeAddr w =
     (case requester c ''mintNFT''
             (MintNFTArgs (JSONSpendHeader user (JSONFromAddrs from) (JSONChangeAddr changeAddr))
                assetID (Hex_String hex payload) HexEncoding to)
             (JSONTxID Empty) w of
        ((res, err), w') \<Rightarrow>
          if err \<noteq> None then ((Empty, err), w') else ((get_TxID res, None), w'))"

definition ImportAVAX ::
  "'w Client \<Rightarrow> UserPass \<Rightarrow> string \<Rightarrow> string \<Rightarrow> 'w \<Rightarrow> (ID \<times> error option) \<times> 'w" where
  "ImportAVAX c user to sourceChain w =
     (case requester c ''importAVAX''
             (ImportArgs user to sourceChain)
             (JSONTxID Empty) w of
        ((res, err), w') \<Rightarrow>
          if err \<noteq> None then ((Empty, err), w') else ((get_TxID res, None), w'))"

definition ExportAVAX ::
  "'w Client \<Rightarrow> UserPass \<Rightarrow> 64 word \<Rightarrow> string \<Rightarrow> string list \<Rightarrow> string \<Rightarrow> 'w \<Rightarrow> (ID \<times> error option) \<times> 'w" where
  "ExportAVAX c user amount to from changeAddr w =
     (case requester c ''exportAVAX''
             (ExportAVAXArgsP (ExportAVAXArgs
                (JSONSpendHeader user (JSONFromAddrs from) (JSONChangeAddr changeAddr)) amount to))
             (JSONTxID Empty) w of
        ((res, err), w') \<Rightarrow>
          if err \<noteq> None then ((Empty, err), w') else ((get_TxID res, None), w'))"

text \<open>\<^verbatim>\<open>Import\<close> and \<^verbatim>\<open>Export\<close> return \<^verbatim>\<open>res.TxID\<close> whatever the error is.\<close>

definition Import ::
  "'w Client \<Rightarrow> UserPass \<Rightarrow> string \<Rightarrow> string \<Rightarrow> 'w \<Rightarrow> (ID \<times> error option) \<times> 'w" where
  "Import c user to sourceChain w =
     (case requester c ''importAVAX'' (ImportArgs user to sourceChain) (JSONTxID Empty) w of
        ((res, err), w') \<Rightarrow> ((get_TxID res, err), w'))"

definition Export ::
  "'w Client \<Rightarrow> UserPass \<Rightarrow> 64 word \<Rightarrow> string \<Rightarrow> string \<Rightarrow> string list \<Rightarrow> string \<Rightarrow> 'w
     \<Rightarrow> (ID \<times> error option) \<times> 'w" where
  "Export c user amount to assetID from changeAddr w =
     (case requester c ''exportAVAX''
             (ExportArgs (ExportAVAXArgs
                (JSONSpendHeader user (JSONFromAddrs from) (JSONChangeAddr changeAddr)) amount to)
                assetID)
             (JSONTxID Empty) w of
        ((res, err), w') \<Rightarrow> ((get_TxID res, err), w'))"


section \<open>Observing the calls of a client\<close>

text \<open>
  What a run of a client does to the world is observed by recording it: the world becomes a
  pair of the world and the events so far, \<open>traced sr\<close> is the requester \<open>sr\<close> that records
  each call of \<^verbatim>\<open>SendRequest\<close> with what it was given and what it gave back, and
  \<open>traced_sleep\<close> does the same for \<^verbatim>\<open>time.Sleep\<close>.
\<close>

datatype event =
    Slept Duration
  | Called string payload payload payload "error option"
      \<comment> \<open>method, parameters, slot before the call, slot after the call, error\<close>

definition traced :: "'w EndpointRequester \<Rightarrow> ('w \<times> event list) EndpointRequester" where
  "traced sr method params reply =
     (\<lambda>(w, tr). case sr method params reply w of
        ((reply', err), w') \<Rightarrow>
          ((reply', err), (w', tr @ [Called method params reply reply' err])))"

definition traced_sleep ::
  "(Duration \<Rightarrow> 'w \<Rightarrow> 'w) \<Rightarrow> Duration \<Rightarrow> 'w \<times> event list \<Rightarrow> 'w \<times> event list" where
  "traced_sleep sleep d = (\<lambda>(w, tr). (sleep d w, tr @ [Slept d]))"

fun outcomes :: "event list \<Rightarrow> (payload \<times> error option) list" where
  "outcomes [] = []"
| "outcomes (Slept d # tr) = outcomes tr"
| "outcomes (Called m p r r' e # tr) = (r', e) # outcomes tr"

fun requests :: "event list \<Rightarrow> (string \<times> payload \<times> payload) list" where
  "requests [] = []"
| "requests (Slept d # tr) = requests tr"
| "requests (Called m p r r' e # tr) = (m, p, r) # requests tr"

text \<open>The requests that a client method, run from an empty record, hands to its requester.\<close>

definition sent ::
  "(('w \<times> event list) Client \<Rightarrow> 'w \<times> event list \<Rightarrow> 'w \<times> event list)
     \<Rightarrow> 'w EndpointRequester \<Rightarrow> 'w \<Rightarrow> (string \<times> payload \<times> payload) list" where
  "sent run sr w = requests (snd (run \<lparr>requester = traced sr\<rparr> (w, [])))"

text \<open>
  One iteration of \<^verbatim>\<open>AwaitHealthy\<close> as it shows in the record, given what the liveness
  call gave back; and whether that is a reply reporting healthy.
\<close>

definition iteration :: "Duration \<Rightarrow> payload \<times> error option \<Rightarrow> event list" where
  "iteration interval out =
     [Slept interval,
      Called ''getLiveness'' EmptyStruct (GetLivenessReply False) (fst out) (snd out)]"

definition reports_healthy :: "payload \<times> error option \<Rightarrow> bool" where
  "reports_healthy out = (snd out = None \<and> get_Healthy (fst out))"

text \<open>
  The stubs of the specification's testable properties. Their world counts the requests
  answered so far, and sleeping leaves it alone.
\<close>

definition no_sleep :: "Duration \<Rightarrow> nat \<Rightarrow> nat" where
  "no_sleep d n = n"

definition stub_unreachable :: "nat EndpointRequester" where
  "stub_unreachable method params reply n =
     ((reply, Some (TransportError ''connection refused'')), n + 1)"

definition stub_healthy_on_third :: "nat EndpointRequester" where
  "stub_healthy_on_third method params reply n = ((GetLivenessReply (2 \<le> n), None), n + 1)"

text \<open>
  A network whose server gives the same delivery to every request, and whose codec writes
  every parameter struct and reads the status of a transaction.
\<close>

definition stub_network :: "delivery \<Rightarrow> nat network" where
  "stub_network d =
     \<lparr>serialize = (\<lambda>params. Some ''{}''),
      transmit = (\<lambda>url timeout method body n. (d, n + 1)),
      decode_into = (\<lambda>result slot.
        case slot of
          GetTxStatusReply st \<Rightarrow>
            if result = ''Accepted'' then Some (GetTxStatusReply Accepted) else None
        | _ \<Rightarrow> None)\<rparr>"

text \<open>
  A formatter for runs that never look at what it gives: its text is empty and it reads
  every string as no bytes.
\<close>

definition stub_hex :: Hex where
  "stub_hex = \<lparr>Hex_String = (\<lambda>bytes. []), Hex_FromString = (\<lambda>held s. ([], None))\<rparr>"

section \<open>The public methods of a client, as values\<close>

text \<open>
  A call of a public method of the info client or of the AVM client with its arguments,
  the name of the method called, and the run of the call (its result dropped, the world
  kept). The run of an AVM call takes the formatter.
\<close>

datatype info_call =
    Call_GetNodeID
  | Call_GetNetworkID
  | Call_GetNetworkName
  | Call_GetBlockchainID
  | Call_Peers
  | Call_IsBootstrapped string

fun info_method_of :: "info_call \<Rightarrow> string" where
  "info_method_of Call_GetNodeID = ''GetNodeID''"
| "info_method_of Call_GetNetworkID = ''GetNetworkID''"
| "info_method_of Call_GetNetworkName = ''GetNetworkName''"
| "info_method_of Call_GetBlockchainID = ''GetBlockchainID''"
| "info_method_of Call_Peers = ''Peers''"
| "info_method_of (Call_IsBootstrapped chain) = ''IsBootstrapped''"

fun info_invoke :: "'w Client \<Rightarrow> info_call \<Rightarrow> 'w \<Rightarrow> 'w" where
  "info_invoke c Call_GetNodeID w = snd (GetNodeID c w)"
| "info_invoke c Call_GetNetworkID w = snd (GetNetworkID c w)"
| "info_invoke c Call_GetNetworkName w = snd (GetNetworkName c w)"
| "info_invoke c Call_GetBlockchainID w = snd (GetBlockchainID c w)"
| "info_invoke c Call_Peers w = snd (Peers c w)"
| "info_invoke c (Call_IsBootstrapped chain) w = snd (IsBootstrapped c chain w)"

datatype avm_call =
    Call_IssueTx "byte list"
  | Call_GetTxStatus ID
  | Call_GetTx ID
  | Call_GetUTXOs "string list" "32 word" string string
  | Call_GetAssetDescription string
  | Call_GetBalance string string
  | Call_GetAllBalances string string
  | Call_CreateFixedCapAsset UserPass string string byte "Holder list" "string list" string
  | Call_CreateVariableCapAsset UserPass string string byte "Owners list" "string list" string
  | Call_CreateNFTAsset UserPass string string "Owners list" "string list" string
  | Call_CreateAddress UserPass
  | Call_ListAddresses UserPass
  | Call_ExportKey UserPass string
  | Call_ImportKey UserPass string
  | Call_Send UserPass "64 word" string string "string list" string
  | Call_SendMultiple UserPass "SendOutput list" "string list" string
  | Call_Mint UserPass "64 word" string string "string list" string
  | Call_SendNFT UserPass string "32 word" string "string list" string
  | Call_MintNFT UserPass string "byte list" string "string list" string
  | Call_ImportAVAX UserPass string string
  | Call_ExportAVAX UserPass "64 word" string "string list" string
  | Call_Import UserPass string string
  | Call_Export UserPass "64 word" string string "string list" string

fun avm_method_of :: "avm_call \<Rightarrow> string" where
  "avm_method_of (Call_IssueTx txBytes) = ''IssueTx''"
| "avm_method_of (Call_GetTxStatus txID) = ''GetTxStatus''"
| "avm_method_of (Call_GetTx txID) = ''GetTx''"
| "avm_method_of (Call_GetUTXOs addrs limit startAddress startUTXOID) = ''GetUTXOs''"
| "avm_method_of (Call_GetAssetDescription assetID) = ''GetAssetDescription''"
| "avm_method_of (Call_GetBalance addr assetID) = ''GetBalance''"
| "avm_method_of (Call_GetAllBalances addr assetID) = ''GetAllBalances''"
| "avm_method_of (Call_CreateFixedCapAsset user name symbol denomination holders from changeAddr) =
     ''CreateFixedCapAsset''"
| "avm_method_of (Call_CreateVariableCapAsset user name symbol denomination minters from changeAddr) =
     ''CreateVariableCapAsset''"
| "avm_method_of (Call_CreateNFTAsset user name symbol minters from changeAddr) = ''CreateNFTAsset''"
| "avm_method_of (Call_CreateAddress user) = ''CreateAddress''"
| "avm_method_of (Call_ListAddresses user) = ''ListAddresses''"
| "avm_method_of (Call_ExportKey user addr) = ''ExportKey''"
| "avm_method_of (Call_ImportKey user privateKey) = ''ImportKey''"
| "avm_method_of (Call_Send user amount assetID to from changeAddr) = ''Send''"
| "avm_method_of (Call_SendMultiple user outputs from changeAddr) = ''SendMultiple''"
| "avm_method_of (Call_Mint user amount assetID to from changeAddr) = ''Mint''"
| "avm_method_of (Call_SendNFT user assetID groupID to from changeAddr) = ''SendNFT''"
| "avm_method_of (Call_MintNFT user assetID payload to from changeAddr) = ''MintNFT''"
| "avm_method_of (Call_ImportAVAX user to sourceChain) = ''ImportAVAX''"
| "avm_method_of (Call_ExportAVAX user amount to from changeAddr) = ''ExportAVAX''"
| "avm_method_of (Call_Import user to sourceChain) = ''Import''"
| "avm_method_of (Call_Export user amount to assetID from changeAddr) = ''Export''"

fun avm_invoke :: "Hex \<Rightarrow> 'w Client \<Rightarrow> avm_call \<Rightarrow> 'w \<Rightarrow> 'w" where
  "avm_invoke hex c (Call_IssueTx txBytes) w = snd (IssueTx hex c txBytes w)"
| "avm_invoke hex c (Call_GetTxStatus txID) w = snd (GetTxStatus c txID w)"
| "avm_invoke hex c (Call_GetTx txID) w = snd (GetTx hex c txID w)"
| "avm_invoke hex c (Call_GetUTXOs addrs limit startAddress startUTXOID) w =
     snd (GetUTXOs hex c addrs limit startAddress startUTXOID w)"
| "avm_invoke hex c (Call_GetAssetDescription assetID) w = snd (GetAssetDescription c assetID w)"
| "avm_invoke hex c (Call_GetBalance addr assetID) w = snd (GetBalance c addr assetID w)"
| "avm_invoke hex c (Call_GetAllBalances addr assetID) w = snd (GetAllBalances c addr assetID w)"
| "avm_invoke hex c (Call_CreateFixedCapAsset user name symbol denomination holders from changeAddr) w =
     snd (CreateFixedCapAsset c user name symbol denomination holders from changeAddr w)"
| "avm_invoke hex c (Call_CreateVariableCapAsset user name symbol denomination minters from changeAddr) w =
     snd (CreateVariableCapAsset c user name symbol denomination minters from changeAddr w)"
| "avm_invoke hex c (Call_CreateNFTAsset user name symbol minters from changeAddr) w =
     snd (CreateNFTAsset c user name symbol minters from changeAddr w)"
| "avm_invoke hex c (Call_CreateAddress user) w = snd (CreateAddress c user w)"
| "avm_invoke hex c (Call_ListAddresses user) w = snd (ListAddresses c user w)"
| "avm_invoke hex c (Call_ExportKey user addr) w = snd (ExportKey c user addr w)"
| "avm_invoke hex c (Call_ImportKey user privateKey) w = snd (ImportKey c user privateKey w)"
| "avm_invoke hex c (Call_Send user amount assetID to from changeAddr) w =
     snd (Send c user amount assetID to from changeAddr w)"
| "avm_invoke hex c (Call_SendMultiple user outputs from changeAddr) w =
     snd (SendMultiple c user outputs from changeAddr w)"
| "avm_invoke hex c (Call_Mint user amount assetID to from changeAddr) w =
     snd (Mint c user amount assetID to from changeAddr w)"
| "avm_invoke hex c (Call_SendNFT user assetID groupID to from changeAddr) w =
     snd (SendNFT c user assetID groupID to from changeAddr w)"
| "avm_invoke hex c (Call_MintNFT user assetID payload to from changeAddr) w =
     snd (MintNFT hex c user assetID payload to from changeAddr w)"
| "avm_invoke hex c (Call_ImportAVAX user to sourceChain) w = snd (ImportAVAX c user to sourceChain w)"
| "avm_invoke hex c (Call_ExportAVAX user amount to from changeAddr) w =
     snd (ExportAVAX c user amount to from changeAddr w)"
| "avm_invoke hex c (Call_Import user to sourceChain) w = snd (Import c user to sourceChain w)"
| "avm_invoke hex c (Call_Export user amount to assetID from changeAddr) w =
     snd (Export c user amount to assetID from changeAddr w)"

section \<open>The polling loop of the health client\<close>

lemma outcomes_append: "outcomes (xs @ ys) = outcomes xs @ outcomes ys"
  by (induction xs rule: outcomes.induct) simp_all

lemma outcomes_iterations: "outcomes (concat (map (iteration d) outs)) = outs"
  by (induction outs) (simp_all add: iteration_def)

lemma loop_step:
  assumes "i < checks"
    and "sr ''getLiveness'' EmptyStruct (GetLivenessReply False) (sleep interval w) = ((r, e), w')"
  shows "AwaitHealthy_loop (traced_sleep sleep) \<lparr>requester = traced sr\<rparr> checks interval i (w, tr) =
     (if reports_healthy (r, e) then ((True, None), (w', tr @ iteration interval (r, e)))
      else AwaitHealthy_loop (traced_sleep sleep) \<lparr>requester = traced sr\<rparr> checks interval (i + 1)
             (w', tr @ iteration interval (r, e)))"
  using assms
  by (subst AwaitHealthy_loop.simps)
     (simp add: GetLiveness_def traced_def traced_sleep_def iteration_def reports_healthy_def)

lemma loop_done:
  "\<not> i < checks \<Longrightarrow> AwaitHealthy_loop sleep c checks interval i w = ((False, None), w)"
  by (subst AwaitHealthy_loop.simps) simp

lemma loop_trace:
  "\<exists>outs. snd (snd (AwaitHealthy_loop (traced_sleep sleep) \<lparr>requester = traced sr\<rparr> checks interval i (w, tr)))
             = tr @ concat (map (iteration interval) outs)
     \<and> length outs \<le> nat (checks - i)
     \<and> (\<forall>out \<in> set (butlast outs). \<not> reports_healthy out)
     \<and> (if outs \<noteq> [] \<and> reports_healthy (last outs)
         then fst (AwaitHealthy_loop (traced_sleep sleep) \<lparr>requester = traced sr\<rparr> checks interval i (w, tr)) = (True, None)
         else fst (AwaitHealthy_loop (traced_sleep sleep) \<lparr>requester = traced sr\<rparr> checks interval i (w, tr)) = (False, None)
              \<and> length outs = nat (checks - i))"
proof (induction "nat (checks - i)" arbitrary: i w tr)
  case 0
  then have "\<not> i < checks" by simp
  then show ?case
    by (intro exI [of _ "[]"]) (simp add: loop_done)
next
  case (Suc n)
  then have lt: "i < checks" and n: "n = nat (checks - (i + 1))" by simp_all
  obtain r e w' where call:
    "sr ''getLiveness'' EmptyStruct (GetLivenessReply False) (sleep interval w) = ((r, e), w')"
    by (metis surj_pair)
  note step = loop_step [where sleep = sleep and sr = sr and interval = interval and w = w and tr = tr, OF lt call]
  show ?case
  proof (cases "reports_healthy (r, e)")
    case True
    with step lt show ?thesis
      by (intro exI [of _ "[(r, e)]"]) simp
  next
    case False
    from Suc.hyps(1) [OF n, of w' "tr @ iteration interval (r, e)"]
    obtain outs where outs:
      "snd (snd (AwaitHealthy_loop (traced_sleep sleep) \<lparr>requester = traced sr\<rparr> checks interval (i + 1)
          (w', tr @ iteration interval (r, e))))
        = (tr @ iteration interval (r, e)) @ concat (map (iteration interval) outs)"
      "length outs \<le> nat (checks - (i + 1))"
      "\<forall>out \<in> set (butlast outs). \<not> reports_healthy out"
      "if outs \<noteq> [] \<and> reports_healthy (last outs)
         then fst (AwaitHealthy_loop (traced_sleep sleep) \<lparr>requester = traced sr\<rparr> checks interval (i + 1)
                (w', tr @ iteration interval (r, e))) = (True, None)
         else fst (AwaitHealthy_loop (traced_sleep sleep) \<lparr>requester = traced sr\<rparr> checks interval (i + 1)
                (w', tr @ iteration interval (r, e))) = (False, None)
              \<and> length outs = nat (checks - (i + 1))"
      by blast
    show ?thesis
    proof (intro exI [of _ "(r, e) # outs"] conjI)
      show "snd (snd (AwaitHealthy_loop (traced_sleep sleep) \<lparr>requester = traced sr\<rparr> checks interval i (w, tr)))
             = tr @ concat (map (iteration interval) ((r, e) # outs))"
        using step False outs(1) by simp
      show "length ((r, e) # outs) \<le> nat (checks - i)"
        using outs(2) lt by simp
      show "\<forall>out \<in> set (butlast ((r, e) # outs)). \<not> reports_healthy out"
        using outs(3) False by simp
      show "if (r, e) # outs \<noteq> [] \<and> reports_healthy (last ((r, e) # outs))
         then fst (AwaitHealthy_loop (traced_sleep sleep) \<lparr>requester = traced sr\<rparr> checks interval i (w, tr)) = (True, None)
         else fst (AwaitHealthy_loop (traced_sleep sleep) \<lparr>requester = traced sr\<rparr> checks interval i (w, tr)) = (False, None)
              \<and> length ((r, e) # outs) = nat (checks - i)"
        using outs(4) False step lt by (auto split: if_splits)
    qed
  qed
qed


lemma run_unreachable:
  "AwaitHealthy (traced_sleep no_sleep) \<lparr>requester = traced stub_unreachable\<rparr> 3 10000000 (0, []) =
     ((False, None), (3,
       [Slept 10000000, Called ''getLiveness'' EmptyStruct (GetLivenessReply False) (GetLivenessReply False) (Some (TransportError ''connection refused'')),
        Slept 10000000, Called ''getLiveness'' EmptyStruct (GetLivenessReply False) (GetLivenessReply False) (Some (TransportError ''connection refused'')),
        Slept 10000000, Called ''getLiveness'' EmptyStruct (GetLivenessReply False) (GetLivenessReply False) (Some (TransportError ''connection refused''))]))"
  by (simp add: AwaitHealthy_def AwaitHealthy_loop.simps GetLiveness_def traced_def
      traced_sleep_def no_sleep_def stub_unreachable_def)

lemma run_healthy_on_third:
  "AwaitHealthy (traced_sleep no_sleep) \<lparr>requester = traced stub_healthy_on_third\<rparr> 3 10000000 (0, []) =
     ((True, None), (3,
       [Slept 10000000, Called ''getLiveness'' EmptyStruct (GetLivenessReply False) (GetLivenessReply False) None,
        Slept 10000000, Called ''getLiveness'' EmptyStruct (GetLivenessReply False) (GetLivenessReply False) None,
        Slept 10000000, Called ''getLiveness'' EmptyStruct (GetLivenessReply False) (GetLivenessReply True) None]))"
  by (simp add: AwaitHealthy_def AwaitHealthy_loop.simps GetLiveness_def traced_def
      traced_sleep_def no_sleep_def stub_healthy_on_third_def get_Healthy_def)

text \<open>
  Claim C9. For every \<open>checks \<le> 0\<close> and every interval, \<^verbatim>\<open>AwaitHealthy\<close> returns
  \<^verbatim>\<open>(false, nil)\<close> at once: the world comes back as it was given, whatever the clock and
  the requester are, and the record of a traced run stays empty, so that nothing slept and
  no liveness request was issued.
\<close>

theorem AwaitHealthy_no_checks:
  "checks \<le> 0 \<Longrightarrow>
     AwaitHealthy sleep c checks interval w = ((False, None), w) \<and>
     AwaitHealthy (traced_sleep sleep) \<lparr>requester = traced sr\<rparr> checks interval (w, []) =
       ((False, None), (w, []))"
  by (simp add: AwaitHealthy_def loop_done)

theorem AwaitHealthy_no_checks_witness:
  "(-2 :: int) \<le> 0 \<and>
   AwaitHealthy no_sleep \<lparr>requester = stub_healthy_on_third\<rparr> (-2) 10000000 5 = ((False, None), 5) \<and>
   AwaitHealthy (traced_sleep no_sleep) \<lparr>requester = traced stub_healthy_on_third\<rparr> (-2) 10000000 (5, []) =
     ((False, None), (5, []))"
  using AwaitHealthy_no_checks [of "-2" no_sleep "\<lparr>requester = stub_healthy_on_third\<rparr>" 10000000 5
      stub_healthy_on_third]
  by simp

lemma AwaitHealthy_trace:
  assumes run: "AwaitHealthy (traced_sleep sleep) \<lparr>requester = traced sr\<rparr> checks interval (w, []) =
      (res, (w', tr))"
  shows "tr = concat (map (iteration interval) (outcomes tr))"
    and "length (outcomes tr) \<le> nat checks"
    and "\<forall>out \<in> set (butlast (outcomes tr)). \<not> reports_healthy out"
    and "if outcomes tr \<noteq> [] \<and> reports_healthy (last (outcomes tr))
         then res = (True, None)
         else res = (False, None) \<and> length (outcomes tr) = nat checks"
proof -
  have run': "AwaitHealthy_loop (traced_sleep sleep) \<lparr>requester = traced sr\<rparr> checks interval 0 (w, []) =
      (res, (w', tr))"
    using run by (simp only: AwaitHealthy_def)
  from loop_trace [of sleep sr checks interval 0 w "[]"]
  obtain outs where raw:
    "snd (snd (res, (w', tr))) = [] @ concat (map (iteration interval) outs)"
    "length outs \<le> nat (checks - 0)"
    "\<forall>out \<in> set (butlast outs). \<not> reports_healthy out"
    "if outs \<noteq> [] \<and> reports_healthy (last outs)
         then fst (res, (w', tr)) = (True, None)
         else fst (res, (w', tr)) = (False, None) \<and> length outs = nat (checks - 0)"
    unfolding run' by blast
  have outs: "tr = concat (map (iteration interval) outs)"
    "length outs \<le> nat checks"
    "\<forall>out \<in> set (butlast outs). \<not> reports_healthy out"
    "if outs \<noteq> [] \<and> reports_healthy (last outs)
         then res = (True, None)
         else res = (False, None) \<and> length outs = nat checks"
    using raw by (simp_all cong: if_cong)
  have eq: "outcomes tr = outs"
    by (simp add: outs(1) outcomes_iterations)
  show "tr = concat (map (iteration interval) (outcomes tr))"
    using outs(1) eq by simp
  show "length (outcomes tr) \<le> nat checks"
    using outs(2) eq by simp
  show "\<forall>out \<in> set (butlast (outcomes tr)). \<not> reports_healthy out"
    using outs(3) eq by simp
  show "if outcomes tr \<noteq> [] \<and> reports_healthy (last (outcomes tr))
         then res = (True, None)
         else res = (False, None) \<and> length (outcomes tr) = nat checks"
    using outs(4) eq by simp
qed

text \<open>
  Claim C1. If every liveness request that a run of \<^verbatim>\<open>AwaitHealthy\<close> issues comes back
  with an error, the run returns \<^verbatim>\<open>(false, nil)\<close>, so none of the errors is surfaced, and
  its record is exactly \<open>checks\<close> iterations (none for \<open>checks \<le> 0\<close>), each a sleep of
  \<open>interval\<close> followed by one \<^verbatim>\<open>getLiveness\<close> request.
\<close>

theorem AwaitHealthy_swallows_errors:
  assumes run: "AwaitHealthy (traced_sleep sleep) \<lparr>requester = traced sr\<rparr> checks interval (w, []) =
      (res, (w', tr))"
    and fail: "\<forall>out \<in> set (outcomes tr). snd out \<noteq> None"
  shows "res = (False, None) \<and>
         tr = concat (map (iteration interval) (outcomes tr)) \<and>
         length (outcomes tr) = nat checks"
proof -
  have "\<not> (outcomes tr \<noteq> [] \<and> reports_healthy (last (outcomes tr)))"
    using fail by (auto simp: reports_healthy_def dest: last_in_set)
  with AwaitHealthy_trace(1,4) [OF run] show ?thesis
    by simp
qed

theorem AwaitHealthy_swallows_errors_witness:
  "AwaitHealthy (traced_sleep no_sleep) \<lparr>requester = traced stub_unreachable\<rparr> 3 10000000 (0, []) =
     ((False, None), (3, concat (replicate 3 (iteration 10000000
         (GetLivenessReply False, Some (TransportError ''connection refused'')))))) \<and>
   map snd (outcomes (concat (replicate 3 (iteration 10000000
         (GetLivenessReply False, Some (TransportError ''connection refused'')))))) =
     replicate 3 (Some (TransportError ''connection refused'')) \<and>
   length (outcomes (concat (replicate 3 (iteration 10000000
         (GetLivenessReply False, Some (TransportError ''connection refused'')))))) = nat 3"
proof -
  have run: "AwaitHealthy (traced_sleep no_sleep) \<lparr>requester = traced stub_unreachable\<rparr> 3 10000000 (0, []) =
     ((False, None), (3, concat (replicate 3 (iteration 10000000
         (GetLivenessReply False, Some (TransportError ''connection refused''))))))"
    by (simp add: run_unreachable iteration_def numeral_3_eq_3)
  have fail: "\<forall>out \<in> set (outcomes (concat (replicate 3 (iteration 10000000
         (GetLivenessReply False, Some (TransportError ''connection refused'')))))). snd out \<noteq> None"
    by (simp add: iteration_def numeral_3_eq_3)
  from AwaitHealthy_swallows_errors [OF run fail] run show ?thesis
    by (simp add: iteration_def numeral_3_eq_3)
qed

text \<open>
  Claim C2. The record of a run of \<^verbatim>\<open>AwaitHealthy\<close> is a sequence of at most \<open>checks\<close>
  iterations, each a sleep of \<open>interval\<close> followed by one \<^verbatim>\<open>getLiveness\<close> request. No
  iteration before the last got a reply reporting healthy without error; the run returns
  \<^verbatim>\<open>(true, nil)\<close> when the last one did, and otherwise \<^verbatim>\<open>(false, nil)\<close> after all
  \<open>checks\<close> iterations. Against the stub that reports unhealthy on calls 1 and 2 and
  healthy on call 3, \<^verbatim>\<open>AwaitHealthy(3, 10ms)\<close> returns \<^verbatim>\<open>(true, nil)\<close> after exactly three
  iterations.
\<close>

theorem AwaitHealthy_returns_at_first_healthy:
  "(AwaitHealthy (traced_sleep sleep) \<lparr>requester = traced sr\<rparr> checks interval (w, []) = (res, (w', tr)) \<longrightarrow>
      tr = concat (map (iteration interval) (outcomes tr)) \<and>
      length (outcomes tr) \<le> nat checks \<and>
      (\<forall>out \<in> set (butlast (outcomes tr)). \<not> reports_healthy out) \<and>
      (if outcomes tr \<noteq> [] \<and> reports_healthy (last (outcomes tr))
       then res = (True, None)
       else res = (False, None) \<and> length (outcomes tr) = nat checks)) \<and>
   AwaitHealthy (traced_sleep no_sleep) \<lparr>requester = traced stub_healthy_on_third\<rparr> 3 10000000 (0, []) =
     ((True, None), (3,
        iteration 10000000 (GetLivenessReply False, None) @
        iteration 10000000 (GetLivenessReply False, None) @
        iteration 10000000 (GetLivenessReply True, None)))"
proof (intro conjI impI)
  assume run: "AwaitHealthy (traced_sleep sleep) \<lparr>requester = traced sr\<rparr> checks interval (w, []) = (res, (w', tr))"
  show "tr = concat (map (iteration interval) (outcomes tr))"
    by (rule AwaitHealthy_trace(1) [OF run])
  show "length (outcomes tr) \<le> nat checks"
    by (rule AwaitHealthy_trace(2) [OF run])
  show "\<forall>out \<in> set (butlast (outcomes tr)). \<not> reports_healthy out"
    by (rule AwaitHealthy_trace(3) [OF run])
  show "if outcomes tr \<noteq> [] \<and> reports_healthy (last (outcomes tr))
       then res = (True, None)
       else res = (False, None) \<and> length (outcomes tr) = nat checks"
    by (rule AwaitHealthy_trace(4) [OF run])
next
  show "AwaitHealthy (traced_sleep no_sleep) \<lparr>requester = traced stub_healthy_on_third\<rparr> 3 10000000 (0, []) =
     ((True, None), (3,
        iteration 10000000 (GetLivenessReply False, None) @
        iteration 10000000 (GetLivenessReply False, None) @
        iteration 10000000 (GetLivenessReply True, None)))"
    by (simp add: run_healthy_on_third iteration_def)
qed

theorem AwaitHealthy_returns_at_first_healthy_witness:
  "outcomes (iteration 10000000 (GetLivenessReply False, None) @
        iteration 10000000 (GetLivenessReply False, None) @
        iteration 10000000 (GetLivenessReply True, None)) =
     [(GetLivenessReply False, None), (GetLivenessReply False, None), (GetLivenessReply True, None)] \<and>
   length (outcomes (iteration 10000000 (GetLivenessReply False, None) @
        iteration 10000000 (GetLivenessReply False, None) @
        iteration 10000000 (GetLivenessReply True, None))) \<le> nat 3 \<and>
   reports_healthy (GetLivenessReply True, None) \<and>
   \<not> reports_healthy (GetLivenessReply False, None) \<and>
   fst (AwaitHealthy (traced_sleep no_sleep) \<lparr>requester = traced stub_healthy_on_third\<rparr> 3 10000000 (0, [])) =
     (True, None)"
  using AwaitHealthy_returns_at_first_healthy [of no_sleep stub_healthy_on_third 3 10000000 0
      "(True, None)" 3
      "iteration 10000000 (GetLivenessReply False, None) @
        iteration 10000000 (GetLivenessReply False, None) @
        iteration 10000000 (GetLivenessReply True, None)"]
  by (simp add: iteration_def reports_healthy_def get_Healthy_def)



section \<open>The requester's outcomes\<close>

text \<open>
  Claim C3. Every call of \<^verbatim>\<open>SendRequest\<close> ends in exactly one of two ways: the error is
  \<^verbatim>\<open>nil\<close> and the slot holds the decoding of the result payload the server sent, or the
  error is not \<^verbatim>\<open>nil\<close> and the slot is as the caller passed it.
\<close>

theorem SendRequest_one_outcome:
  assumes "SendRequest net cfg method params resultOut w = ((out, err), w')"
  shows "(err = None \<and> populated net cfg method params resultOut w out) \<noteq>
         (err \<noteq> None \<and> out = resultOut)"
  using assms
  by (auto simp: SendRequest_def populated_def
      split: option.splits prod.splits delivery.splits response_envelope.splits)

theorem SendRequest_one_outcome_witness:
  "SendRequest (stub_network (Received (ResultPayload ''Accepted'')))
      \<lparr>base_address = ''http://node'', uri_path = ''/ext/bc/X'', namespace = ''avm'',
        request_timeout = 1000\<rparr>
      ''getTxStatus'' (JSONTxID Empty) (GetTxStatusReply Unknown) 0 =
     ((GetTxStatusReply Accepted, None), 1) \<and>
   populated (stub_network (Received (ResultPayload ''Accepted'')))
      \<lparr>base_address = ''http://node'', uri_path = ''/ext/bc/X'', namespace = ''avm'',
        request_timeout = 1000\<rparr>
      ''getTxStatus'' (JSONTxID Empty) (GetTxStatusReply Unknown) 0 (GetTxStatusReply Accepted)"
proof -
  have run: "SendRequest (stub_network (Received (ResultPayload ''Accepted'')))
      \<lparr>base_address = ''http://node'', uri_path = ''/ext/bc/X'', namespace = ''avm'',
        request_timeout = 1000\<rparr>
      ''getTxStatus'' (JSONTxID Empty) (GetTxStatusReply Unknown) 0 =
     ((GetTxStatusReply Accepted, None), 1)"
    by (simp add: SendRequest_def stub_network_def)
  from SendRequest_one_outcome [OF run] run show ?thesis
    by simp
qed

text \<open>
  Claim C4. When the server answers with an error payload of a code and a message,
  \<^verbatim>\<open>SendRequest\<close> returns \<^verbatim>\<open>RemoteError\<close> of that code and message and the slot as it was
  passed. For \<^verbatim>\<open>GetTxStatus\<close> of an AVM client built by \<^verbatim>\<open>NewClient\<close>: the slot stays the
  zero-valued \<^verbatim>\<open>GetTxStatusReply\<close> and the method returns \<^verbatim>\<open>choices.Unknown\<close> with that
  error.
\<close>

theorem SendRequest_remote_error:
  "(serialize net params = Some body \<and>
    transmit net (base_address cfg @ uri_path cfg) (request_timeout cfg)
      (namespace cfg @ ''.'' @ method) body w = (Received (ErrorPayload code message), w') \<longrightarrow>
    SendRequest net cfg method params resultOut w =
      ((resultOut, Some (RemoteError code message)), w')) \<and>
   (serialize net (JSONTxID txID) = Some body' \<and>
    transmit net (uri @ ''/ext/bc/'' @ chain) requestTimeout ''avm.getTxStatus'' body' v =
      (Received (ErrorPayload code message), v') \<longrightarrow>
    requester (avm_NewClient net uri chain requestTimeout) ''getTxStatus'' (JSONTxID txID)
        (GetTxStatusReply Unknown) v =
      ((GetTxStatusReply Unknown, Some (RemoteError code message)), v') \<and>
    GetTxStatus (avm_NewClient net uri chain requestTimeout) txID v =
      ((Unknown, Some (RemoteError code message)), v'))"
  by (simp add: SendRequest_def GetTxStatus_def avm_NewClient_def NewEndpointRequester_def)

theorem SendRequest_remote_error_witness:
  "SendRequest (stub_network (Received (ErrorPayload 7 ''bad request'')))
      \<lparr>base_address = ''http://node'', uri_path = ''/ext/bc/X'', namespace = ''avm'',
        request_timeout = 1000\<rparr>
      ''getTxStatus'' (JSONTxID Empty) (GetTxStatusReply Accepted) 0 =
     ((GetTxStatusReply Accepted, Some (RemoteError 7 ''bad request'')), 1) \<and>
   GetTxStatus (avm_NewClient (stub_network (Received (ErrorPayload 7 ''bad request'')))
      ''http://node'' ''X'' 1000) Empty 0 =
     ((Unknown, Some (RemoteError 7 ''bad request'')), 1)"
  using SendRequest_remote_error [of "stub_network (Received (ErrorPayload 7 ''bad request''))"
      "JSONTxID Empty" "''{}''"
      "\<lparr>base_address = ''http://node'', uri_path = ''/ext/bc/X'', namespace = ''avm'',
        request_timeout = 1000\<rparr>" "''getTxStatus''" 0 7 "''bad request''" 1
      "GetTxStatusReply Accepted" Empty "''{}''" "''http://node''" "''X''" 1000 0 1]
  by (simp add: stub_network_def)

section \<open>Import and ImportAVAX\<close>

text \<open>
  Claim C8. For every user, destination and source chain, \<^verbatim>\<open>Import\<close> and \<^verbatim>\<open>ImportAVAX\<close>
  hand the same single request to the requester: method \<^verbatim>\<open>importAVAX\<close> with the same
  \<^verbatim>\<open>ImportArgs\<close> and a fresh \<^verbatim>\<open>JSONTxID\<close>. If the requester leaves that slot as it was
  whenever it returns an error, the two methods return the same identifier, error and world,
  and the identifier is \<^verbatim>\<open>ids.Empty\<close> when there is an error.
\<close>

theorem Import_agrees_with_ImportAVAX:
  "sent (\<lambda>c v. snd (Import c user to sourceChain v)) sr w =
     [(''importAVAX'', ImportArgs user to sourceChain, JSONTxID Empty)] \<and>
   sent (\<lambda>c v. snd (ImportAVAX c user to sourceChain v)) sr w =
     [(''importAVAX'', ImportArgs user to sourceChain, JSONTxID Empty)] \<and>
   ((snd (fst (sr ''importAVAX'' (ImportArgs user to sourceChain) (JSONTxID Empty) w)) \<noteq> None \<longrightarrow>
     fst (fst (sr ''importAVAX'' (ImportArgs user to sourceChain) (JSONTxID Empty) w)) =
       JSONTxID Empty) \<longrightarrow>
    Import \<lparr>requester = sr\<rparr> user to sourceChain w =
      ImportAVAX \<lparr>requester = sr\<rparr> user to sourceChain w \<and>
    (snd (fst (Import \<lparr>requester = sr\<rparr> user to sourceChain w)) \<noteq> None \<longrightarrow>
      fst (fst (Import \<lparr>requester = sr\<rparr> user to sourceChain w)) = Empty))"
  by (auto simp: sent_def Import_def ImportAVAX_def traced_def get_TxID_def
      split: prod.splits)

theorem Import_agrees_with_ImportAVAX_witness:
  "Import \<lparr>requester = stub_unreachable\<rparr> (UserPass ''alice'' ''secret'') ''X-avax1'' ''P'' 0 =
     ((Empty, Some (TransportError ''connection refused'')), 1) \<and>
   ImportAVAX \<lparr>requester = stub_unreachable\<rparr> (UserPass ''alice'' ''secret'') ''X-avax1'' ''P'' 0 =
     ((Empty, Some (TransportError ''connection refused'')), 1)"
  using Import_agrees_with_ImportAVAX [of "UserPass ''alice'' ''secret''" "''X-avax1''" "''P''"
      stub_unreachable 0]
  by (simp add: stub_unreachable_def Import_def get_TxID_def)


section \<open>The requests of the public methods\<close>

lemma avm_requests:
  shows "sent (\<lambda>c. avm_invoke hex c (Call_IssueTx txBytes)) sr w =
       [(''issueTx'', FormattedTx (Hex_String hex txBytes) HexEncoding,
         JSONTxID Empty)]"
    and "sent (\<lambda>c. avm_invoke hex c (Call_GetTxStatus txID)) sr w =
       [(''getTxStatus'', JSONTxID txID,
         GetTxStatusReply Unknown)]"
    and "sent (\<lambda>c. avm_invoke hex c (Call_GetTx txID)) sr w =
       [(''getTx'', GetTxArgs txID HexEncoding,
         FormattedTx [] UnsetEncoding)]"
    and "sent (\<lambda>c. avm_invoke hex c (Call_GetUTXOs addrs limit startAddress startUTXOID)) sr w =
       [(''getUTXOs'', GetUTXOsArgs addrs limit (Index startAddress startUTXOID) HexEncoding,
         GetUTXOsReply [] (Index [] []))]"
    and "sent (\<lambda>c. avm_invoke hex c (Call_GetAssetDescription assetID)) sr w =
       [(''getAssetDescription'', GetAssetDescriptionArgs assetID,
         GetAssetDescriptionReply [])]"
    and "sent (\<lambda>c. avm_invoke hex c (Call_GetBalance addr assetID)) sr w =
       [(''getBalance'', GetBalanceArgs addr assetID,
         GetBalanceReply [])]"
    and "sent (\<lambda>c. avm_invoke hex c (Call_GetAllBalances addr assetID)) sr w =
       [(''getAllBalances'', JSONAddress addr,
         GetAllBalancesReply [])]"
    and "sent (\<lambda>c. avm_invoke hex c (Call_CreateFixedCapAsset user name symbol denomination holders from changeAddr)) sr w =
       [(''createFixedCapAsset'', CreateAssetArgs (JSONSpendHeader user (JSONFromAddrs from) (JSONChangeAddr changeAddr)) name symbol denomination holders [],
         FormattedAssetID Empty)]"
    and "sent (\<lambda>c. avm_invoke hex c (Call_CreateVariableCapAsset user name symbol denomination minters from changeAddr)) sr w =
       [(''createVariableCapAsset'', CreateAssetArgs (JSONSpendHeader user (JSONFromAddrs from) (JSONChangeAddr changeAddr)) name symbol denomination [] minters,
         FormattedAssetID Empty)]"
    and "sent (\<lambda>c. avm_invoke hex c (Call_CreateNFTAsset user name symbol minters from changeAddr)) sr w =
       [(''createNFTAsset'', CreateNFTAssetArgs (JSONSpendHeader user (JSONFromAddrs from) (JSONChangeAddr changeAddr)) name symbol minters,
         FormattedAssetID Empty)]"
    and "sent (\<lambda>c. avm_invoke hex c (Call_CreateAddress user)) sr w =
       [(''createAddress'', UserPassArgs user,
         JSONAddress [])]"
    and "sent (\<lambda>c. avm_invoke hex c (Call_ListAddresses user)) sr w =
       [(''listAddresses'', UserPassArgs user,
         JSONAddresses [])]"
    and "sent (\<lambda>c. avm_invoke hex c (Call_ExportKey user addr)) sr w =
       [(''exportKey'', ExportKeyArgs user addr,
         ExportKeyReply [])]"
    and "sent (\<lambda>c. avm_invoke hex c (Call_ImportKey user privateKey)) sr w =
       [(''importKey'', ImportKeyArgs user privateKey,
         JSONAddress [])]"
    and "sent (\<lambda>c. avm_invoke hex c (Call_Send user amount assetID to from changeAddr)) sr w =
       [(''send'', SendArgs (JSONSpendHeader user (JSONFromAddrs from) (JSONChangeAddr changeAddr)) (SendOutput amount assetID to),
         JSONTxID Empty)]"
    and "sent (\<lambda>c. avm_invoke hex c (Call_SendMultiple user outputs from changeAddr)) sr w =
       [(''send'', SendMultipleArgs (JSONSpendHeader user (JSONFromAddrs from) (JSONChangeAddr changeAddr)) outputs,
         JSONTxID Empty)]"
    and "sent (\<lambda>c. avm_invoke hex c (Call_Mint user amount assetID to from changeAddr)) sr w =
       [(''mint'', MintArgs (JSONSpendHeader user (JSONFromAddrs from) (JSONChangeAddr changeAddr)) amount assetID to,
         JSONTxID Empty)]"
    and "sent (\<lambda>c. avm_invoke hex c (Call_SendNFT user assetID groupID to from changeAddr)) sr w =
       [(''sendNFT'', SendNFTArgs (JSONSpendHeader user (JSONFromAddrs from) (JSONChangeAddr changeAddr)) assetID groupID to,
         JSONTxID Empty)]"
    and "sent (\<lambda>c. avm_invoke hex c (Call_MintNFT user assetID payload to from changeAddr)) sr w =
       [(''mintNFT'', MintNFTArgs (JSONSpendHeader user (JSONFromAddrs from) (JSONChangeAddr changeAddr)) assetID (Hex_String hex payload) HexEncoding to,
         JSONTxID Empty)]"
    and "sent (\<lambda>c. avm_invoke hex c (Call_ImportAVAX user to sourceChain)) sr w =
       [(''importAVAX'', ImportArgs user to sourceChain,
         JSONTxID Empty)]"
    and "sent (\<lambda>c. avm_invoke hex c (Call_ExportAVAX user amount to from changeAddr)) sr w =
       [(''exportAVAX'', ExportAVAXArgsP (ExportAVAXArgs (JSONSpendHeader user (JSONFromAddrs from) (JSONChangeAddr changeAddr)) amount to),
         JSONTxID Empty)]"
    and "sent (\<lambda>c. avm_invoke hex c (Call_Import user to sourceChain)) sr w =
       [(''importAVAX'', ImportArgs user to sourceChain,
         JSONTxID Empty)]"
    and "sent (\<lambda>c. avm_invoke hex c (Call_Export user amount to assetID from changeAddr)) sr w =
       [(''exportAVAX'', ExportArgs (ExportAVAXArgs (JSONSpendHeader user (JSONFromAddrs from) (JSONChangeAddr changeAddr)) amount to) assetID,
         JSONTxID Empty)]"
  by (simp_all add: sent_def traced_def IssueTx_def GetTxStatus_def GetTx_def GetUTXOs_def
      GetAssetDescription_def GetBalance_def GetAllBalances_def CreateFixedCapAsset_def
      CreateVariableCapAsset_def CreateNFTAsset_def CreateAddress_def ListAddresses_def
      ExportKey_def ImportKey_def Send_def SendMultiple_def Mint_def SendNFT_def MintNFT_def
      ImportAVAX_def ExportAVAX_def Import_def Export_def case_prod_unfold
      split: sum.split option.split)

lemma info_requests:
  shows "sent (\<lambda>c. info_invoke c Call_GetNodeID) sr w =
       [(''getNodeID'', EmptyStruct, GetNodeIDReply [])]"
    and "sent (\<lambda>c. info_invoke c Call_GetNetworkID) sr w =
       [(''getNetworkID'', EmptyStruct, GetNetworkIDReply 0)]"
    and "sent (\<lambda>c. info_invoke c Call_GetNetworkName) sr w =
       [(''getNetworkName'', EmptyStruct, GetNetworkNameReply [])]"
    and "sent (\<lambda>c. info_invoke c Call_GetBlockchainID) sr w =
       [(''getBlockchainID'', EmptyStruct, GetBlockchainIDReply [])]"
    and "sent (\<lambda>c. info_invoke c Call_Peers) sr w =
       [(''peers'', EmptyStruct, PeersReply [])]"
    and "sent (\<lambda>c. info_invoke c (Call_IsBootstrapped chain)) sr w =
       [(''isBootstrapped'', IsBootstrappedArgs chain, IsBootstrappedResponse False)]"
  by (simp_all add: sent_def traced_def GetNodeID_def GetNetworkID_def GetNetworkName_def
      GetBlockchainID_def Peers_def IsBootstrapped_def case_prod_unfold)

lemma avm_one_request: "length (sent (\<lambda>c. avm_invoke hex c call) sr w) = 1"
  by (cases call) (simp_all add: avm_requests)

lemma avm_request_prebuilt:
  "sent (\<lambda>c. avm_invoke hex c call) sr' w' = sent (\<lambda>c. avm_invoke hex c call) sr w"
  by (cases call) (simp_all add: avm_requests)

lemma avm_name_constant:
  "avm_method_of call = avm_method_of call' \<Longrightarrow>
   map fst (sent (\<lambda>c. avm_invoke hex c call') sr' w') = map fst (sent (\<lambda>c. avm_invoke hex c call) sr w)"
  by (cases call; cases call') (simp_all add: avm_requests)

lemma info_one_request: "length (sent (\<lambda>c. info_invoke c call) sr w) = 1"
  by (cases call) (simp_all add: info_requests)

lemma info_request_prebuilt:
  "sent (\<lambda>c. info_invoke c call) sr' w' = sent (\<lambda>c. info_invoke c call) sr w"
  by (cases call) (simp_all add: info_requests)

lemma info_name_constant:
  "info_method_of call = info_method_of call' \<Longrightarrow>
   map fst (sent (\<lambda>c. info_invoke c call') sr' w') = map fst (sent (\<lambda>c. info_invoke c call) sr w)"
  by (cases call; cases call') (simp_all add: info_requests)

lemma GetLiveness_request:
  "sent (\<lambda>c v. snd (GetLiveness c v)) sr w = [(''getLiveness'', EmptyStruct, GetLivenessReply False)]"
  by (simp add: sent_def traced_def GetLiveness_def case_prod_unfold)

lemma requests_iterations:
  "requests (concat (map (iteration d) outs)) =
     replicate (length outs) (''getLiveness'', EmptyStruct, GetLivenessReply False)"
  by (induction outs) (simp_all add: iteration_def)

lemma AwaitHealthy_requests:
  "sent (\<lambda>c v. snd (AwaitHealthy (traced_sleep sleep) c checks interval v)) sr w =
     replicate (length (sent (\<lambda>c v. snd (AwaitHealthy (traced_sleep sleep) c checks interval v)) sr w))
       (''getLiveness'', EmptyStruct, GetLivenessReply False) \<and>
   length (sent (\<lambda>c v. snd (AwaitHealthy (traced_sleep sleep) c checks interval v)) sr w) \<le> nat checks"
proof -
  obtain res v tr where run:
    "AwaitHealthy (traced_sleep sleep) \<lparr>requester = traced sr\<rparr> checks interval (w, []) = (res, (v, tr))"
    by (metis surj_pair)
  have tr: "tr = concat (map (iteration interval) (outcomes tr))"
    by (rule AwaitHealthy_trace(1) [OF run])
  have len: "length (outcomes tr) \<le> nat checks"
    by (rule AwaitHealthy_trace(2) [OF run])
  have "requests tr = replicate (length (outcomes tr)) (''getLiveness'', EmptyStruct, GetLivenessReply False)"
    by (subst tr) (rule requests_iterations)
  with len show ?thesis
    by (simp add: sent_def run)
qed

text \<open>
  Claim C5 asks that distinct public methods of one client dispatch distinct method names.
  The AVM client does so for twenty of its methods, each dispatching its own name, and not
  for three: \<^verbatim>\<open>SendMultiple\<close> hands its \<^verbatim>\<open>SendMultipleArgs\<close> to the method \<^verbatim>\<open>send\<close> that
  \<^verbatim>\<open>Send\<close> dispatches with \<^verbatim>\<open>SendArgs\<close>, \<^verbatim>\<open>Export\<close> hands its \<^verbatim>\<open>ExportArgs\<close> to the
  method \<^verbatim>\<open>exportAVAX\<close> of \<^verbatim>\<open>ExportAVAX\<close>, and \<^verbatim>\<open>Import\<close> dispatches the
  \<^verbatim>\<open>importAVAX\<close> of \<^verbatim>\<open>ImportAVAX\<close>. The requests of the six methods, at one input each:
\<close>

theorem SendMultiple_dispatches_send:
  "sent (\<lambda>c v. snd (Send c (UserPass ''alice'' ''secret'') 1 ''AVAX'' ''X-avax1'' [] [] v))
     stub_unreachable 0 =
     [(''send'',
       SendArgs (JSONSpendHeader (UserPass ''alice'' ''secret'') (JSONFromAddrs [])
         (JSONChangeAddr [])) (SendOutput 1 ''AVAX'' ''X-avax1''),
       JSONTxID Empty)] \<and>
   sent (\<lambda>c v. snd (SendMultiple c (UserPass ''alice'' ''secret'')
       [SendOutput 1 ''AVAX'' ''X-avax1''] [] [] v)) stub_unreachable 0 =
     [(''send'',
       SendMultipleArgs (JSONSpendHeader (UserPass ''alice'' ''secret'') (JSONFromAddrs [])
         (JSONChangeAddr [])) [SendOutput 1 ''AVAX'' ''X-avax1''],
       JSONTxID Empty)] \<and>
   sent (\<lambda>c v. snd (ExportAVAX c (UserPass ''alice'' ''secret'') 1 ''P-avax1'' [] [] v))
     stub_unreachable 0 =
     [(''exportAVAX'',
       ExportAVAXArgsP (ExportAVAXArgs (JSONSpendHeader (UserPass ''alice'' ''secret'')
         (JSONFromAddrs []) (JSONChangeAddr [])) 1 ''P-avax1''),
       JSONTxID Empty)] \<and>
   sent (\<lambda>c v. snd (Export c (UserPass ''alice'' ''secret'') 1 ''P-avax1'' ''asset'' [] [] v))
     stub_unreachable 0 =
     [(''exportAVAX'',
       ExportArgs (ExportAVAXArgs (JSONSpendHeader (UserPass ''alice'' ''secret'')
         (JSONFromAddrs []) (JSONChangeAddr [])) 1 ''P-avax1'') ''asset'',
       JSONTxID Empty)] \<and>
   sent (\<lambda>c v. snd (ImportAVAX c (UserPass ''alice'' ''secret'') ''X-avax1'' ''P'' v))
     stub_unreachable 0 =
     [(''importAVAX'', ImportArgs (UserPass ''alice'' ''secret'') ''X-avax1'' ''P'',
       JSONTxID Empty)] \<and>
   sent (\<lambda>c v. snd (Import c (UserPass ''alice'' ''secret'') ''X-avax1'' ''P'' v))
     stub_unreachable 0 =
     [(''importAVAX'', ImportArgs (UserPass ''alice'' ''secret'') ''X-avax1'' ''P'',
       JSONTxID Empty)]"
  by (simp add: sent_def traced_def Send_def SendMultiple_def ExportAVAX_def Export_def
      ImportAVAX_def Import_def stub_unreachable_def)

text \<open>
  Claim C6, as the claim states it, fails: \<^verbatim>\<open>AwaitHealthy\<close> is a public method of the health
  client, and with three checks against an unreachable endpoint it issues three requests.
\<close>

theorem AwaitHealthy_three_requests_counterexample:
  "sent (\<lambda>c v. snd (AwaitHealthy (traced_sleep no_sleep) c 3 10000000 v)) stub_unreachable 0 =
     [(''getLiveness'', EmptyStruct, GetLivenessReply False),
      (''getLiveness'', EmptyStruct, GetLivenessReply False),
      (''getLiveness'', EmptyStruct, GetLivenessReply False)] \<and>
   length (sent (\<lambda>c v. snd (AwaitHealthy (traced_sleep no_sleep) c 3 10000000 v))
     stub_unreachable 0) \<noteq> 1"
  by (simp add: sent_def run_unreachable)

text \<open>
  Claim C6, amended. Each client is built holding the one requester that
  \<^verbatim>\<open>NewEndpointRequester\<close> configures with the client's path and namespace:
  \<^verbatim>\<open>/ext/health\<close> and \<^verbatim>\<open>health\<close>, \<^verbatim>\<open>/ext/info\<close> and \<^verbatim>\<open>info\<close>, \<^verbatim>\<open>/ext/bc/\<close> followed by
  the chain and \<^verbatim>\<open>avm\<close>. Every public method other than \<^verbatim>\<open>AwaitHealthy\<close> hands exactly one
  request to the requester; the request (method name, parameters, fresh reply) is the same
  whatever the requester and the world are, and its method name is the same for all
  arguments of the method. \<^verbatim>\<open>AwaitHealthy\<close> hands over at most \<open>checks\<close> requests, each the
  one of \<^verbatim>\<open>GetLiveness\<close>.
\<close>

theorem clients_one_request_per_method:
  "requester (health_NewClient net uri requestTimeout) =
     SendRequest net \<lparr>base_address = uri, uri_path = ''/ext/health'', namespace = ''health'',
       request_timeout = requestTimeout\<rparr> \<and>
   requester (info_NewClient net uri requestTimeout) =
     SendRequest net \<lparr>base_address = uri, uri_path = ''/ext/info'', namespace = ''info'',
       request_timeout = requestTimeout\<rparr> \<and>
   requester (avm_NewClient net uri chain requestTimeout) =
     SendRequest net \<lparr>base_address = uri, uri_path = ''/ext/bc/'' @ chain, namespace = ''avm'',
       request_timeout = requestTimeout\<rparr> \<and>
   sent (\<lambda>c v. snd (GetLiveness c v)) sr w =
     [(''getLiveness'', EmptyStruct, GetLivenessReply False)] \<and>
   length (sent (\<lambda>c. info_invoke c icall) sr w) = 1 \<and>
   sent (\<lambda>c. info_invoke c icall) sr' w' = sent (\<lambda>c. info_invoke c icall) sr w \<and>
   (info_method_of icall = info_method_of icall' \<longrightarrow>
    map fst (sent (\<lambda>c. info_invoke c icall') sr w) = map fst (sent (\<lambda>c. info_invoke c icall) sr w)) \<and>
   length (sent (\<lambda>c. avm_invoke hex c acall) sr w) = 1 \<and>
   sent (\<lambda>c. avm_invoke hex c acall) sr' w' = sent (\<lambda>c. avm_invoke hex c acall) sr w \<and>
   (avm_method_of acall = avm_method_of acall' \<longrightarrow>
    map fst (sent (\<lambda>c. avm_invoke hex c acall') sr w) = map fst (sent (\<lambda>c. avm_invoke hex c acall) sr w)) \<and>
   sent (\<lambda>c v. snd (AwaitHealthy (traced_sleep sleep) c checks interval v)) sr w =
     replicate (length (sent (\<lambda>c v. snd (AwaitHealthy (traced_sleep sleep) c checks interval v)) sr w))
       (''getLiveness'', EmptyStruct, GetLivenessReply False) \<and>
   length (sent (\<lambda>c v. snd (AwaitHealthy (traced_sleep sleep) c checks interval v)) sr w) \<le> nat checks"
proof (intro conjI impI)
  show "requester (health_NewClient net uri requestTimeout) =
     SendRequest net \<lparr>base_address = uri, uri_path = ''/ext/health'', namespace = ''health'',
       request_timeout = requestTimeout\<rparr>"
    by (simp add: health_NewClient_def NewEndpointRequester_def)
  show "requester (info_NewClient net uri requestTimeout) =
     SendRequest net \<lparr>base_address = uri, uri_path = ''/ext/info'', namespace = ''info'',
       request_timeout = requestTimeout\<rparr>"
    by (simp add: info_NewClient_def NewEndpointRequester_def)
  show "requester (avm_NewClient net uri chain requestTimeout) =
     SendRequest net \<lparr>base_address = uri, uri_path = ''/ext/bc/'' @ chain, namespace = ''avm'',
       request_timeout = requestTimeout\<rparr>"
    by (simp add: avm_NewClient_def NewEndpointRequester_def)
  show "sent (\<lambda>c v. snd (GetLiveness c v)) sr w =
     [(''getLiveness'', EmptyStruct, GetLivenessReply False)]"
    by (rule GetLiveness_request)
  show "length (sent (\<lambda>c. info_invoke c icall) sr w) = 1"
    by (rule info_one_request)
  show "sent (\<lambda>c. info_invoke c icall) sr' w' = sent (\<lambda>c. info_invoke c icall) sr w"
    by (rule info_request_prebuilt)
  show "map fst (sent (\<lambda>c. info_invoke c icall') sr w) = map fst (sent (\<lambda>c. info_invoke c icall) sr w)"
    if "info_method_of icall = info_method_of icall'"
    using that by (rule info_name_constant)
  show "length (sent (\<lambda>c. avm_invoke hex c acall) sr w) = 1"
    by (rule avm_one_request)
  show "sent (\<lambda>c. avm_invoke hex c acall) sr' w' = sent (\<lambda>c. avm_invoke hex c acall) sr w"
    by (rule avm_request_prebuilt)
  show "map fst (sent (\<lambda>c. avm_invoke hex c acall') sr w) = map fst (sent (\<lambda>c. avm_invoke hex c acall) sr w)"
    if "avm_method_of acall = avm_method_of acall'"
    using that by (rule avm_name_constant)
  show "sent (\<lambda>c v. snd (AwaitHealthy (traced_sleep sleep) c checks interval v)) sr w =
     replicate (length (sent (\<lambda>c v. snd (AwaitHealthy (traced_sleep sleep) c checks interval v)) sr w))
       (''getLiveness'', EmptyStruct, GetLivenessReply False)"
    using AwaitHealthy_requests [of sleep checks interval sr w] by (rule conjunct1)
  show "length (sent (\<lambda>c v. snd (AwaitHealthy (traced_sleep sleep) c checks interval v)) sr w) \<le> nat checks"
    using AwaitHealthy_requests [of sleep checks interval sr w] by (rule conjunct2)
qed

theorem clients_one_request_per_method_witness:
  "info_method_of (Call_IsBootstrapped ''X'') = info_method_of (Call_IsBootstrapped ''P'') \<and>
   map fst (sent (\<lambda>c. info_invoke c (Call_IsBootstrapped ''P'')) stub_unreachable 0) =
     map fst (sent (\<lambda>c. info_invoke c (Call_IsBootstrapped ''X'')) stub_unreachable 0) \<and>
   avm_method_of (Call_GetTx Empty) = avm_method_of (Call_GetTx (ID [1])) \<and>
   map fst (sent (\<lambda>c. avm_invoke stub_hex c (Call_GetTx (ID [1]))) stub_unreachable 0) =
     map fst (sent (\<lambda>c. avm_invoke stub_hex c (Call_GetTx Empty)) stub_unreachable 0) \<and>
   length (sent (\<lambda>c v. snd (AwaitHealthy (traced_sleep no_sleep) c 3 10000000 v))
     stub_unreachable 0) \<le> nat 3"
  using clients_one_request_per_method [where net = "stub_network TimedOut"
      and uri = "''http://node''" and requestTimeout = 1000 and chain = "''X''"
      and sr = stub_unreachable and w = 0 and sr' = stub_unreachable and w' = 0
      and icall = "Call_IsBootstrapped ''X''" and icall' = "Call_IsBootstrapped ''P''"
      and hex = stub_hex and acall = "Call_GetTx Empty" and acall' = "Call_GetTx (ID [1])"
      and sleep = no_sleep and checks = 3 and interval = 10000000]
  by simp

end
